theory Spec2Isabelle
  imports Main "HOL-Library.Multiset"
begin

section \<open>Python values as read by \<open>json.load\<close>\<close>

text \<open>
  \<open>convert.py\<close> works on the value that \<open>json.load\<close> returns: \<open>None\<close>, booleans,
  integers, strings, lists and dictionaries with string keys. A dictionary is an
  association list in insertion order; \<open>json.load\<close> keeps one entry per key, so the
  keys of a dictionary are distinct and the first match of \<open>map_of\<close> is the only one.
  JSON numbers are modelled as Python's unbounded \<open>int\<close>; floating point numbers are
  left out of the value type.
\<close>

datatype json =
    JNull
  | JBool bool
  | JInt int
  | JStr string
  | JList "json list"
  | JDict "(string \<times> json) list"

text \<open>The exceptions the modelled functions can raise.\<close>

datatype py_error = AttributeError | TypeError | KeyError | IndexError

type_synonym 'a result = "py_error + 'a"

definition and_then :: "'a result \<Rightarrow> ('a \<Rightarrow> 'b result) \<Rightarrow> 'b result" where
  "and_then m f = (case m of Inl e \<Rightarrow> Inl e | Inr x \<Rightarrow> f x)"

text \<open>\<open>d.get(k, default)\<close> on a dictionary.\<close>

definition dict_get :: "(string \<times> json) list \<Rightarrow> string \<Rightarrow> json \<Rightarrow> json" where
  "dict_get kvs k d = (case map_of kvs k of None \<Rightarrow> d | Some v \<Rightarrow> v)"

text \<open>
  \<open>obj.get(k, default)\<close> on any value: only a dictionary has the method, every other
  value raises \<open>AttributeError\<close>.
\<close>

definition py_get :: "json \<Rightarrow> string \<Rightarrow> json \<Rightarrow> json result" where
  "py_get obj k d = (case obj of JDict kvs \<Rightarrow> Inr (dict_get kvs k d) | _ \<Rightarrow> Inl AttributeError)"

text \<open>
  \<open>for x in obj\<close>: a list yields its items, a string its characters (each a string of
  length one), a dictionary its keys; \<open>None\<close>, booleans and integers raise \<open>TypeError\<close>.
\<close>

definition py_iter :: "json \<Rightarrow> json list result" where
  "py_iter obj = (case obj of
      JList xs \<Rightarrow> Inr xs
    | JStr s \<Rightarrow> Inr (map (\<lambda>c. JStr [c]) s)
    | JDict kvs \<Rightarrow> Inr (map (\<lambda>kv. JStr (fst kv)) kvs)
    | _ \<Rightarrow> Inl TypeError)"

text \<open>\<open>isinstance(v, dict)\<close>.\<close>

definition is_dict :: "json \<Rightarrow> bool" where
  "is_dict v = (case v of JDict _ \<Rightarrow> True | _ \<Rightarrow> False)"

text \<open>Truthiness, as \<open>if x\<close>, \<open>x and ...\<close> and \<open>not x\<close> test it.\<close>

definition py_truthy :: "json \<Rightarrow> bool" where
  "py_truthy v = (case v of
      JNull \<Rightarrow> False
    | JBool b \<Rightarrow> b
    | JInt i \<Rightarrow> i \<noteq> 0
    | JStr s \<Rightarrow> s \<noteq> []
    | JList xs \<Rightarrow> xs \<noteq> []
    | JDict kvs \<Rightarrow> kvs \<noteq> [])"

text \<open>
  Dictionary keys. Lists and dictionaries are unhashable (\<open>TypeError\<close>); \<open>True\<close> and
  \<open>False\<close> are the same keys as \<open>1\<close> and \<open>0\<close>.
\<close>

datatype key = KNone | KInt int | KStr string

definition py_key :: "json \<Rightarrow> key result" where
  "py_key v = (case v of
      JNull \<Rightarrow> Inr KNone
    | JBool b \<Rightarrow> Inr (KInt (if b then 1 else 0))
    | JInt i \<Rightarrow> Inr (KInt i)
    | JStr s \<Rightarrow> Inr (KStr s)
    | JList _ \<Rightarrow> Inl TypeError
    | JDict _ \<Rightarrow> Inl TypeError)"

subsection \<open>String primitives\<close>

text \<open>\<open>s.startswith(p)\<close> and \<open>p in s\<close> (substring test).\<close>

definition startswith :: "string \<Rightarrow> string \<Rightarrow> bool" where
  "startswith s p = (take (length p) s = p)"

fun str_contains :: "string \<Rightarrow> string \<Rightarrow> bool" where
  "str_contains p [] = (p = [])"
| "str_contains p (c # cs) = (startswith (c # cs) p \<or> str_contains p cs)"

text \<open>\<open>str(n)\<close> for an integer.\<close>

definition digit_char :: "nat \<Rightarrow> char" where
  "digit_char n = ''0123456789'' ! (n mod 10)"

function nat_to_str :: "nat \<Rightarrow> string" where
  "nat_to_str n = (if n < 10 then [digit_char n] else nat_to_str (n div 10) @ [digit_char n])"
  by pat_completeness auto
termination
  by (relation "measure id") auto

declare nat_to_str.simps [simp del]

definition int_to_str :: "int \<Rightarrow> string" where
  "int_to_str i = (if i < 0 then CHR ''-'' # nat_to_str (nat (- i)) else nat_to_str (nat i))"

text \<open>
  \<open>repr\<close> of a string: single quotes, unless the string holds a single quote and no
  double quote; the quote in use and the backslash are escaped, tab, newline and
  carriage return are written \<open>\t\<close>, \<open>\n\<close>, \<open>\r\<close>, every other character that is not
  printable as \<open>\xhh\<close>. A \<open>char\<close> stands for a code point below 256; of these the
  ones that are not printable are those below \<open>0x20\<close>, \<open>0x7f\<close> to \<open>0xa0\<close>, and \<open>0xad\<close>.
\<close>

definition hex_char :: "nat \<Rightarrow> char" where
  "hex_char n = ''0123456789abcdef'' ! (n mod 16)"

definition repr_char :: "char \<Rightarrow> char \<Rightarrow> string" where
  "repr_char q c =
     (if c = q \<or> c = CHR 0x5C then [CHR 0x5C, c]
      else if c = CHR 0x09 then [CHR 0x5C, CHR ''t'']
      else if c = CHR 0x0A then [CHR 0x5C, CHR ''n'']
      else if c = CHR 0x0D then [CHR 0x5C, CHR ''r'']
      else if of_char c < (32::nat) \<or> ((127::nat) \<le> of_char c \<and> of_char c \<le> (160::nat))
              \<or> of_char c = (173::nat)
        then [CHR 0x5C, CHR ''x'', hex_char (of_char c div 16), hex_char (of_char c)]
      else [c])"

definition repr_str :: "string \<Rightarrow> string" where
  "repr_str s =
     (let q = (if CHR 0x27 \<in> set s \<and> CHR 0x22 \<notin> set s then CHR 0x22 else CHR 0x27)
      in q # concat (map (repr_char q) s) @ [q])"

fun join_sep :: "string \<Rightarrow> string list \<Rightarrow> string" where
  "join_sep sep [] = []"
| "join_sep sep [x] = x"
| "join_sep sep (x # y # ys) = x @ sep @ join_sep sep (y # ys)"

fun py_repr :: "json \<Rightarrow> string" where
  "py_repr JNull = ''None''"
| "py_repr (JBool b) = (if b then ''True'' else ''False'')"
| "py_repr (JInt i) = int_to_str i"
| "py_repr (JStr s) = repr_str s"
| "py_repr (JList xs) = ''['' @ join_sep '', '' (map py_repr xs) @ '']''"
| "py_repr (JDict kvs) =
     ''{'' @ join_sep '', '' (map (\<lambda>(k, v). repr_str k @ '': '' @ py_repr v) kvs) @ ''}''"

text \<open>What an f-string field \<open>{x}\<close> inserts: \<open>str(x)\<close>.\<close>

definition py_str :: "json \<Rightarrow> string" where
  "py_str v = (case v of JStr s \<Rightarrow> s | _ \<Rightarrow> py_repr v)"

text \<open>
  \<open>''.join(f(x) for x in xs)\<close>: the generator is run to its end first, so the first
  exception of a call is raised; after that an item that is not a string raises
  \<open>TypeError\<close>.
\<close>

fun sequence_results :: "'a result list \<Rightarrow> 'a list result" where
  "sequence_results [] = Inr []"
| "sequence_results (r # rs) =
     (case r of Inl e \<Rightarrow> Inl e
      | Inr x \<Rightarrow> (case sequence_results rs of Inl e \<Rightarrow> Inl e | Inr xs \<Rightarrow> Inr (x # xs)))"

fun str_items :: "json list \<Rightarrow> string list option" where
  "str_items [] = Some []"
| "str_items (JStr s # vs) = (case str_items vs of None \<Rightarrow> None | Some ss \<Rightarrow> Some (s # ss))"
| "str_items (_ # vs) = None"

definition py_join :: "json result list \<Rightarrow> json result" where
  "py_join rs =
     (case sequence_results rs of Inl e \<Rightarrow> Inl e
      | Inr vs \<Rightarrow> (case str_items vs of None \<Rightarrow> Inl TypeError | Some ss \<Rightarrow> Inr (JStr (concat ss))))"

section \<open>The rich-text transducer\<close>

text \<open>
  The two global tables. The Asset Reference Table (\<open>image_map\<close>) maps a remote URL to
  a local path; the Identifier Resolution Table (\<open>resource_id_map\<close>) maps the key of a
  source identifier to the pair of \<open>mapping['id']\<close> and \<open>mapping['type']\<close>.
\<close>

type_synonym image_map = "string \<rightharpoonup> string"
type_synonym resource_id_map = "key \<rightharpoonup> string \<times> string"

text \<open>
  \<open>src in image_map\<close> followed by \<open>image_map[src]\<close>: an unhashable \<open>src\<close> raises
  \<open>TypeError\<close>, a hashable value that is not a string is no key of the table.
\<close>

definition image_lookup :: "image_map \<Rightarrow> json \<Rightarrow> string option result" where
  "image_lookup im v = (case v of
      JStr s \<Rightarrow> Inr (im s)
    | JList _ \<Rightarrow> Inl TypeError
    | JDict _ \<Rightarrow> Inl TypeError
    | _ \<Rightarrow> Inr None)"

definition id_lookup :: "resource_id_map \<Rightarrow> json \<Rightarrow> (string \<times> string) option result" where
  "id_lookup rm v = and_then (py_key v) (\<lambda>k. Inr (rm k))"

text \<open>The loop over the marks of a text node (lines 108-119).\<close>

definition wrap_mark :: "json \<Rightarrow> json \<Rightarrow> json" where
  "wrap_mark mark_type text =
     (if mark_type = JStr ''strong'' then JStr (''<strong>'' @ py_str text @ ''</strong>'')
      else if mark_type = JStr ''em'' then JStr (''<em>'' @ py_str text @ ''</em>'')
      else if mark_type = JStr ''code'' then JStr (''<code>'' @ py_str text @ ''</code>'')
      else if mark_type = JStr ''underline'' then JStr (''<u>'' @ py_str text @ ''</u>'')
      else if mark_type = JStr ''strike'' then JStr (''<s>'' @ py_str text @ ''</s>'')
      else text)"

fun apply_marks :: "json \<Rightarrow> json list \<Rightarrow> json result" where
  "apply_marks text [] = Inr text"
| "apply_marks text (mark # marks) =
     and_then (py_get mark ''type'' (JStr ''''))
       (\<lambda>mark_type. apply_marks (wrap_mark mark_type text) marks)"

text \<open>
  \<open>process_node\<close> (lines 80-199). The value returned is the Python value of \<open>html\<close>,
  which is a string in every branch that formats one and the raw attribute where the
  code assigns it unformatted (a text node without marks, an unresolved mention, an
  inline extension without icon). \<open>inner\<close> stands for
  \<open>''.join(process_node(child) for child in node_content)\<close>; the branches that do not
  evaluate it do not use it.
\<close>

lemma size_dict_get:
  "map_of kvs k = Some v \<Longrightarrow> size v < size (JDict kvs)"
  by (induction kvs) (auto split: if_splits)

lemma size_py_iter_dict_get:
  assumes "py_iter (dict_get kvs k (JList [])) = Inr xs" and "x \<in> set xs"
  shows "size x < size (JDict kvs)"
proof (cases "map_of kvs k")
  case None
  with assms show ?thesis by (simp add: dict_get_def py_iter_def)
next
  case (Some v)
  then have v: "size v < size (JDict kvs)" by (rule size_dict_get)
  have "size x \<le> size v"
  proof (cases v)
    case (JList ys)
    with assms Some have "x \<in> set ys" by (simp add: dict_get_def py_iter_def)
    then have "size x \<le> size_list size ys" by (rule size_list_estimation') simp
    with JList show ?thesis by simp
  qed (use assms Some in \<open>auto simp: dict_get_def py_iter_def\<close>)
  with v show ?thesis by simp
qed

function process_node :: "image_map \<Rightarrow> resource_id_map \<Rightarrow> json \<Rightarrow> json result" where
  "process_node im rm node =
   (case node of
      JDict kvs \<Rightarrow>
       (let node_type = dict_get kvs ''type'' (JStr '''');
            node_content = dict_get kvs ''content'' (JList []);
            attrs = dict_get kvs ''attrs'' (JDict []);
            marks = dict_get kvs ''marks'' (JList []);
            inner = (case py_iter node_content of
                       Inl e \<Rightarrow> Inl e
                     | Inr children \<Rightarrow> py_join (map (process_node im rm) children));
            wrapped = (\<lambda>before after.
                       and_then inner (\<lambda>s. Inr (JStr (before @ py_str s @ after))))
        in
        if node_type = JStr ''doc'' then inner
        else if node_type = JStr ''heading'' then
          and_then (py_get attrs ''level'' (JInt 2)) (\<lambda>level.
            wrapped (''<h'' @ py_str level @ ''>'') (''</h'' @ py_str level @ ''>''))
        else if node_type = JStr ''paragraph'' then
          and_then inner (\<lambda>s.
            if py_truthy s then Inr (JStr (''<p>'' @ py_str s @ ''</p>''))
            else Inr (JStr ''<p></p>''))
        else if node_type = JStr ''text'' then
          and_then (py_iter marks) (\<lambda>ms. apply_marks (dict_get kvs ''text'' (JStr '''')) ms)
        else if node_type = JStr ''bulletList'' then wrapped ''<ul>'' ''</ul>''
        else if node_type = JStr ''orderedList'' then wrapped ''<ol>'' ''</ol>''
        else if node_type = JStr ''listItem'' then wrapped ''<li>'' ''</li>''
        else if node_type = JStr ''image'' then
          and_then (py_get attrs ''src'' (JStr '''')) (\<lambda>src.
          and_then (py_get attrs ''alt'' (JStr '''')) (\<lambda>alt.
          and_then (image_lookup im src) (\<lambda>found.
            Inr (JStr (''<img src=\"''
                       @ (case found of Some local_path \<Rightarrow> local_path | None \<Rightarrow> py_str src)
                       @ ''\" alt=\"'' @ py_str alt @ ''\" />'')))))
        else if node_type = JStr ''rule'' then Inr (JStr ''<hr />'')
        else if node_type = JStr ''codeBlock'' then wrapped ''<pre><code>'' ''</code></pre>''
        else if node_type = JStr ''blockquote'' then wrapped ''<blockquote>'' ''</blockquote>''
        else if node_type = JStr ''bodiedExtension'' then
          and_then (py_get attrs ''extensionKey'' (JStr '''')) (\<lambda>ext_key.
          and_then (py_get attrs ''parameters'' (JDict [])) (\<lambda>parameters.
          and_then (py_get parameters ''extensionTitle'' (JStr ''Secret'')) (\<lambda>ext_title.
            wrapped (''<div class=\"secret\"><strong>'' @ py_str ext_title @ '':</strong> '')
                    ''</div>'')))
        else if node_type = JStr ''panel'' then
          and_then (py_get attrs ''panelType'' (JStr ''info'')) (\<lambda>panel_type.
            wrapped (''<div class=\"panel panel-'' @ py_str panel_type @ ''\">'') ''</div>'')
        else if node_type = JStr ''layoutSection'' then
          wrapped ''<div class=\"layout-section\">'' ''</div>''
        else if node_type = JStr ''layoutColumn'' then
          and_then (py_get attrs ''width'' (JInt 50)) (\<lambda>width.
            wrapped (''<div class=\"layout-column\" style=\"width:'' @ py_str width @ ''%\">'')
                    ''</div>'')
        else if node_type = JStr ''mention'' then
          and_then (py_get attrs ''text'' (JStr '''')) (\<lambda>mention_text.
          and_then (py_get attrs ''id'' (JStr '''')) (\<lambda>resource_id.
          and_then (id_lookup rm resource_id) (\<lambda>found.
            case found of
              Some (foundry_id, doc_type) \<Rightarrow>
                Inr (JStr (''@UUID['' @ doc_type @ ''.'' @ foundry_id @ '']{''
                           @ py_str mention_text @ ''}''))
            | None \<Rightarrow> Inr mention_text)))
        else if node_type = JStr ''inlineExtension'' then
          and_then (py_get attrs ''text'' (JStr '''')) (\<lambda>text.
          and_then (py_get attrs ''parameters'' (JDict [])) (\<lambda>parameters.
          and_then (py_get parameters ''icon'' (JStr '''')) (\<lambda>icon.
            if py_truthy icon
            then Inr (JStr (''<i class=\"'' @ py_str icon @ ''\"></i> '' @ py_str text))
            else Inr text)))
        else inner)
    | _ \<Rightarrow> Inr (JStr ''''))"
  by pat_completeness auto
termination
  by (relation "measure (\<lambda>(im, rm, node). size node)")
     (auto dest: size_py_iter_dict_get)

declare process_node.simps [simp del]

text \<open>
  \<open>convert_prosemirror_to_html\<close> (lines 72-201). The guard
  \<open>not content or not isinstance(content, dict)\<close> is written as the two tests that
  \<open>or\<close> makes in turn. The optional third parameter is \<open>None\<close> when the caller leaves
  it out; it then stands for the empty table.
\<close>

definition convert_prosemirror_to_html ::
  "json \<Rightarrow> image_map \<Rightarrow> resource_id_map option \<Rightarrow> json result" where
  "convert_prosemirror_to_html content im resource_id_map =
     (if \<not> py_truthy content then Inr (JStr '''')
      else if \<not> is_dict content then Inr (JStr '''')
      else process_node im (case resource_id_map of None \<Rightarrow> Map.empty | Some rm \<Rightarrow> rm)
             content)"

section \<open>The asset locator\<close>

text \<open>
  \<open>collect_image_urls\<close> (lines 48-69). The closure \<open>extract_urls\<close> adds to the set
  \<open>urls\<close> of the enclosing call; the model passes the set through.
\<close>

definition asset_host :: string where
  "asset_host = ''assets.legendkeeper.com''"

definition add_asset :: "(string \<times> json) list \<Rightarrow> string \<Rightarrow> string set \<Rightarrow> string set" where
  "add_asset kvs k urls =
     (case map_of kvs k of
        Some (JStr s) \<Rightarrow> if str_contains asset_host s then insert s urls else urls
      | _ \<Rightarrow> urls)"

lemma size_dict_value:
  "v \<in> set (map snd kvs) \<Longrightarrow> size v < size (JDict kvs)"
  by (induction kvs) fastforce+

function extract_urls :: "json \<Rightarrow> string set \<Rightarrow> string set" where
  "extract_urls (JDict kvs) urls =
     fold extract_urls (map snd kvs) (add_asset kvs ''mapId'' (add_asset kvs ''url'' urls))"
| "extract_urls (JList xs) urls = fold extract_urls xs urls"
| "extract_urls JNull urls = urls"
| "extract_urls (JBool b) urls = urls"
| "extract_urls (JInt i) urls = urls"
| "extract_urls (JStr s) urls = urls"
  by pat_completeness auto
termination
proof (relation "measure (\<lambda>(obj, urls). size obj)", goal_cases)
  case 1
  show ?case by simp
next
  case (2 kvs urls v acc)
  then show ?case using size_dict_value [of v kvs] by simp
next
  case (3 xs urls x acc)
  then have "x \<in> set xs" by simp
  then have "size x \<le> size_list size xs" by (rule size_list_estimation') simp
  then show ?case by simp
qed

definition collect_image_urls :: "json \<Rightarrow> string set" where
  "collect_image_urls data = extract_urls data {}"

section \<open>The resource classifier\<close>

text \<open>\<open>x and x.startswith('http')\<close>, as a condition.\<close>

definition url_shaped :: "json \<Rightarrow> bool result" where
  "url_shaped v =
     (if \<not> py_truthy v then Inr False
      else case v of JStr s \<Rightarrow> Inr (startswith s ''http'') | _ \<Rightarrow> Inl AttributeError)"

text \<open>
  The loop over the properties (lines 216-220): \<open>True\<close> when it returns \<open>'Scene'\<close>,
  \<open>False\<close> when it runs to its end.
\<close>

fun scan_image_properties :: "json list \<Rightarrow> bool result" where
  "scan_image_properties [] = Inr False"
| "scan_image_properties (prop # props) =
     and_then (py_get prop ''type'' JNull) (\<lambda>prop_type.
       if prop_type = JStr ''IMAGE'' then
         and_then (py_get prop ''data'' (JDict [])) (\<lambda>data.
         and_then (py_get data ''url'' (JStr '''')) (\<lambda>url.
         and_then (url_shaped url) (\<lambda>is_url.
           if is_url then Inr True else scan_image_properties props)))
       else scan_image_properties props)"

text \<open>
  The loop over the documents (lines 207-222). The first document of type \<open>map\<close>
  decides: the loop returns \<open>'Scene'\<close> from it or leaves by \<open>break\<close>, and the function
  then returns \<open>'JournalEntry'\<close>.
\<close>

fun classify_documents :: "json \<Rightarrow> json list \<Rightarrow> string result" where
  "classify_documents resource [] = Inr ''JournalEntry''"
| "classify_documents resource (doc # docs) =
     and_then (py_get doc ''type'' JNull) (\<lambda>doc_type.
       if doc_type = JStr ''map'' then
         and_then (py_get doc ''map'' (JDict [])) (\<lambda>map_data.
         and_then (py_get map_data ''mapId'' (JStr '''')) (\<lambda>map_id.
         and_then (url_shaped map_id) (\<lambda>is_url.
           if is_url then Inr ''Scene''
           else
             and_then (py_get resource ''properties'' (JList [])) (\<lambda>properties.
             and_then (py_iter properties) (\<lambda>props.
             and_then (scan_image_properties props) (\<lambda>found.
               if found then Inr ''Scene'' else Inr ''JournalEntry''))))))
       else classify_documents resource docs)"

definition classify_resource :: "json \<Rightarrow> string result" where
  "classify_resource resource =
     and_then (py_get resource ''documents'' (JList [])) (\<lambda>documents.
     and_then (py_iter documents) (\<lambda>docs. classify_documents resource docs))"

section \<open>Identifier generation\<close>

text \<open>
  \<open>generate_id\<close> (lines 17-20) draws \<open>length\<close> characters with \<open>random.choice\<close>. The
  random source is an explicit state: the stream of the numbers drawn, of which every
  call of \<open>random.choice\<close> takes the first. Every outcome of the run is the outcome for
  some stream.
\<close>

type_synonym rng = "nat \<Rightarrow> nat"

definition id_chars :: string where
  "id_chars = ''abcdefghijklmnopqrstuvwxyzABCDEFGHIJKLMNOPQRSTUVWXYZ0123456789''"

definition random_choice :: "'a list \<Rightarrow> rng \<Rightarrow> 'a \<times> rng" where
  "random_choice xs g = (xs ! (g 0 mod length xs), \<lambda>n. g (Suc n))"

fun generate_id :: "nat \<Rightarrow> rng \<Rightarrow> string \<times> rng" where
  "generate_id 0 g = ([], g)"
| "generate_id (Suc n) g =
     (let (c, g') = random_choice id_chars g;
          (cs, g'') = generate_id n g'
      in (c # cs, g''))"

section \<open>The identifier resolution pass\<close>

text \<open>
  The first pass of \<open>main\<close> (lines 536-555): the loop over the resources that fills
  \<open>resource_id_map\<close>.
\<close>

fun build_resource_id_map ::
  "json list \<Rightarrow> resource_id_map \<Rightarrow> rng \<Rightarrow> (resource_id_map \<times> rng) result" where
  "build_resource_id_map [] resource_id_map g = Inr (resource_id_map, g)"
| "build_resource_id_map (resource # resources) resource_id_map g =
     and_then (py_get resource ''id'' (JStr '''')) (\<lambda>legendkeeper_id.
       let (foundry_id, g') = generate_id 16 g in
       and_then (classify_resource resource) (\<lambda>doc_type.
       and_then (py_key legendkeeper_id) (\<lambda>k.
         build_resource_id_map resources (resource_id_map(k \<mapsto> (foundry_id, doc_type))) g')))"

section \<open>The document builders\<close>

text \<open>
  The records the builders return. The fields that hold the same constant in every
  record (\<open>folder\<close>, \<open>sort\<close>, \<open>ownership\<close>, the title and format of a page, the
  geometry of a prototype token, the empty \<open>items\<close> and \<open>effects\<close>) are left out.
\<close>

record page =
  page_id :: string
  page_name :: json
  page_type :: string
  page_content :: json
  page_sort :: nat

record journal_entry =
  entry_id :: string
  entry_name :: json
  entry_pages :: "page list"
  entry_legendkeeper_id :: json
  entry_tags :: json

record actor =
  actor_id :: string
  actor_name :: json
  actor_type :: string
  actor_img :: string
  actor_biography :: string
  actor_token_name :: json
  actor_token_src :: string
  actor_legendkeeper_id :: json
  actor_tags :: json

record item =
  item_id :: string
  item_name :: json
  item_type :: string
  item_img :: string
  item_description :: string
  item_legendkeeper_id :: json
  item_tags :: json

text \<open>\<open>url and url in image_map\<close>, with the local path when the test holds.\<close>

definition resolve_image :: "image_map \<Rightarrow> json \<Rightarrow> string option result" where
  "resolve_image im url = (if py_truthy url then image_lookup im url else Inr None)"

subsection \<open>\<open>create_journal_entry\<close> (lines 229-293)\<close>

text \<open>The loop over the documents (lines 237-259).\<close>

fun journal_pages ::
  "image_map \<Rightarrow> resource_id_map option \<Rightarrow> json list \<Rightarrow> page list \<Rightarrow> rng
     \<Rightarrow> (page list \<times> rng) result" where
  "journal_pages im rm [] pages g = Inr (pages, g)"
| "journal_pages im rm (doc # docs) pages g =
     and_then (py_get doc ''type'' JNull) (\<lambda>doc_type.
       if doc_type = JStr ''page'' then
         let (new_id, g') = generate_id 16 g in
         and_then (py_get doc ''name'' (JStr ''Main'')) (\<lambda>name.
         and_then (py_get doc ''content'' (JDict [])) (\<lambda>content.
         and_then (convert_prosemirror_to_html content im rm) (\<lambda>html_content.
           journal_pages im rm docs
             (pages @ [\<lparr>page_id = new_id, page_name = name, page_type = ''text'',
                        page_content = html_content, page_sort = length pages\<rparr>])
             g')))
       else journal_pages im rm docs pages g)"

definition placeholder_content :: string where
  "placeholder_content = ''<p>No content</p>''"

text \<open>The default page (lines 262-270).\<close>

definition default_page :: "page list \<Rightarrow> rng \<Rightarrow> page list \<times> rng" where
  "default_page pages g =
     (if pages = [] then
        let (new_id, g') = generate_id 16 g in
        ([\<lparr>page_id = new_id, page_name = JStr ''Main'', page_type = ''text'',
           page_content = JStr placeholder_content, page_sort = 0\<rparr>], g')
      else (pages, g))"

text \<open>
  The banner (lines 273-276): the image tag is put before the content of the first
  page; \<open>+\<close> raises \<open>TypeError\<close> when that content is not a string.
\<close>

definition banner_tag :: "string \<Rightarrow> json \<Rightarrow> string" where
  "banner_tag local_path name = ''<img src=\"'' @ local_path @ ''\" alt=\"'' @ py_str name @ ''\" />''"

definition prepend_banner :: "string \<Rightarrow> json \<Rightarrow> page list \<Rightarrow> page list result" where
  "prepend_banner local_path name pages =
     (case pages of
        [] \<Rightarrow> Inl IndexError
      | p # ps \<Rightarrow>
          (case page_content p of
             JStr body \<Rightarrow> Inr (p\<lparr>page_content := JStr (banner_tag local_path name @ body)\<rparr> # ps)
           | _ \<Rightarrow> Inl TypeError))"

definition create_journal_entry ::
  "json \<Rightarrow> image_map \<Rightarrow> resource_id_map option \<Rightarrow> rng \<Rightarrow> (journal_entry \<times> rng) result" where
  "create_journal_entry resource im rm g =
     (let (resource_id, g1) = generate_id 16 g in
      and_then (py_get resource ''name'' (JStr ''Untitled'')) (\<lambda>name.
      and_then (py_get resource ''documents'' (JList [])) (\<lambda>documents.
      and_then (py_iter documents) (\<lambda>docs.
      and_then (journal_pages im rm docs [] g1) (\<lambda>(pages, g2).
        let (pages', g3) = default_page pages g2 in
        and_then (py_get resource ''banner'' (JDict [])) (\<lambda>banner.
        and_then (py_get banner ''url'' (JStr '''')) (\<lambda>banner_url.
        and_then (resolve_image im banner_url) (\<lambda>found.
        and_then (case found of
                    None \<Rightarrow> Inr pages'
                  | Some local_path \<Rightarrow> prepend_banner local_path name pages') (\<lambda>pages''.
        and_then (py_get resource ''id'' (JStr '''')) (\<lambda>legendkeeper_id.
        and_then (py_get resource ''tags'' (JList [])) (\<lambda>tags.
          Inr (\<lparr>entry_id = resource_id, entry_name = name, entry_pages = pages'',
                 entry_legendkeeper_id = legendkeeper_id, entry_tags = tags\<rparr>, g3))))))))))))"

subsection \<open>\<open>create_actor_entry\<close> (lines 296-350) and \<open>create_item_entry\<close> (lines 353-396)\<close>

text \<open>
  The loop that looks for the portrait or icon (lines 303-308, 360-365): the first
  \<open>IMAGE\<close> property whose URL is in \<open>image_map\<close>, else the default.
\<close>

fun first_image :: "image_map \<Rightarrow> json list \<Rightarrow> string \<Rightarrow> string result" where
  "first_image im [] img_url = Inr img_url"
| "first_image im (prop # props) img_url =
     and_then (py_get prop ''type'' JNull) (\<lambda>prop_type.
       if prop_type = JStr ''IMAGE'' then
         and_then (py_get prop ''data'' (JDict [])) (\<lambda>data.
         and_then (py_get data ''url'' (JStr '''')) (\<lambda>url.
         and_then (resolve_image im url) (\<lambda>found.
           case found of
             Some local_path \<Rightarrow> Inr local_path
           | None \<Rightarrow> first_image im props img_url)))
       else first_image im props img_url)"

text \<open>
  The loop that gathers the pages (lines 312-315, 369-372). Both builders call
  \<open>convert_prosemirror_to_html(content, image_map)\<close>, without a third argument; \<open>+=\<close>
  on the string raises \<open>TypeError\<close> when the value returned is not a string.
\<close>

fun gather_pages :: "image_map \<Rightarrow> json list \<Rightarrow> string \<Rightarrow> string result" where
  "gather_pages im [] acc = Inr acc"
| "gather_pages im (doc # docs) acc =
     and_then (py_get doc ''type'' JNull) (\<lambda>doc_type.
       if doc_type = JStr ''page'' then
         and_then (py_get doc ''content'' (JDict [])) (\<lambda>content.
         and_then (convert_prosemirror_to_html content im None) (\<lambda>html.
           case html of
             JStr s \<Rightarrow> gather_pages im docs (acc @ s)
           | _ \<Rightarrow> Inl TypeError))
       else gather_pages im docs acc)"

definition create_actor_entry :: "json \<Rightarrow> image_map \<Rightarrow> rng \<Rightarrow> (actor \<times> rng) result" where
  "create_actor_entry resource im g =
     (let (new_id, g') = generate_id 16 g in
      and_then (py_get resource ''name'' (JStr ''Untitled'')) (\<lambda>name.
      and_then (py_get resource ''properties'' (JList [])) (\<lambda>properties.
      and_then (py_iter properties) (\<lambda>props.
      and_then (first_image im props ''icons/svg/mystery-man.svg'') (\<lambda>img_url.
      and_then (py_get resource ''documents'' (JList [])) (\<lambda>documents.
      and_then (py_iter documents) (\<lambda>docs.
      and_then (gather_pages im docs []) (\<lambda>biography.
      and_then (py_get resource ''id'' (JStr '''')) (\<lambda>legendkeeper_id.
      and_then (py_get resource ''tags'' (JList [])) (\<lambda>tags.
        Inr (\<lparr>actor_id = new_id, actor_name = name, actor_type = ''npc'',
               actor_img = img_url, actor_biography = biography,
               actor_token_name = name, actor_token_src = img_url,
               actor_legendkeeper_id = legendkeeper_id, actor_tags = tags\<rparr>, g')))))))))))"

definition create_item_entry :: "json \<Rightarrow> image_map \<Rightarrow> rng \<Rightarrow> (item \<times> rng) result" where
  "create_item_entry resource im g =
     (let (new_id, g') = generate_id 16 g in
      and_then (py_get resource ''name'' (JStr ''Untitled'')) (\<lambda>name.
      and_then (py_get resource ''properties'' (JList [])) (\<lambda>properties.
      and_then (py_iter properties) (\<lambda>props.
      and_then (first_image im props ''icons/svg/item-bag.svg'') (\<lambda>img_url.
      and_then (py_get resource ''documents'' (JList [])) (\<lambda>documents.
      and_then (py_iter documents) (\<lambda>docs.
      and_then (gather_pages im docs []) (\<lambda>description.
      and_then (py_get resource ''id'' (JStr '''')) (\<lambda>legendkeeper_id.
      and_then (py_get resource ''tags'' (JList [])) (\<lambda>tags.
        Inr (\<lparr>item_id = new_id, item_name = name, item_type = ''equipment'',
               item_img = img_url, item_description = description,
               item_legendkeeper_id = legendkeeper_id, item_tags = tags\<rparr>, g')))))))))))"

section \<open>Notions used to state the properties\<close>

text \<open>
  \<open>inner\<close> of \<open>process_node\<close>: the joined renderings of the children of a node with
  content \<open>node_content\<close>.
\<close>

definition render_children :: "image_map \<Rightarrow> resource_id_map \<Rightarrow> json \<Rightarrow> json result" where
  "render_children im rm node_content =
     (case py_iter node_content of
        Inl e \<Rightarrow> Inl e
      | Inr children \<Rightarrow> py_join (map (process_node im rm) children))"

text \<open>
  The rendering of a \<open>bodiedExtension\<close> as the specification's table writes it:
  nothing between \<open></strong>\<close> and the children.
\<close>

definition spec_secret_div :: "string \<Rightarrow> string \<Rightarrow> string" where
  "spec_secret_div title children =
     ''<div class=\"secret\"><strong>'' @ title @ '':</strong>'' @ children @ ''</div>''"

text \<open>
  The nodes of a data graph: the graph itself, the items of its lists and the values of
  its dictionaries. A string appears under the key \<open>k\<close> when some dictionary of the graph
  maps \<open>k\<close> to it.
\<close>

inductive_set subnodes :: "json \<Rightarrow> json set" for root :: json where
  root: "root \<in> subnodes root"
| item: "JList xs \<in> subnodes root \<Longrightarrow> x \<in> set xs \<Longrightarrow> x \<in> subnodes root"
| dict_value: "JDict kvs \<in> subnodes root \<Longrightarrow> (k, v) \<in> set kvs \<Longrightarrow> v \<in> subnodes root"

definition under_key :: "json \<Rightarrow> string \<Rightarrow> string \<Rightarrow> bool" where
  "under_key data k s = (\<exists>kvs. JDict kvs \<in> subnodes data \<and> map_of kvs k = Some (JStr s))"

text \<open>
  ``Begins with the trusted host prefix'', read with or without the scheme of the URL.
\<close>

definition begins_with_asset_host :: "string \<Rightarrow> bool" where
  "begins_with_asset_host s =
     (startswith s asset_host \<or> startswith s (''http://'' @ asset_host)
      \<or> startswith s (''https://'' @ asset_host))"

text \<open>The strings that the two tests of \<open>extract_urls\<close> add for one dictionary.\<close>

definition direct_urls :: "(string \<times> json) list \<Rightarrow> string set" where
  "direct_urls kvs = {s. (map_of kvs ''url'' = Some (JStr s) \<or> map_of kvs ''mapId'' = Some (JStr s))
                         \<and> str_contains asset_host s}"

text \<open>
  \<open>json_perm a b\<close>: \<open>b\<close> is \<open>a\<close> with the items of its lists, at every depth, in
  another order. Dictionaries keep their keys and the order of their entries.
\<close>

inductive json_perm :: "json \<Rightarrow> json \<Rightarrow> bool" where
  null: "json_perm JNull JNull"
| bool: "json_perm (JBool b) (JBool b)"
| int: "json_perm (JInt i) (JInt i)"
| str: "json_perm (JStr s) (JStr s)"
| list: "list_all2 json_perm xs zs \<Longrightarrow> mset zs = mset ys \<Longrightarrow> json_perm (JList xs) (JList ys)"
| dict: "list_all2 (\<lambda>kv kv'. fst kv = fst kv' \<and> json_perm (snd kv) (snd kv')) kvs kvs'
         \<Longrightarrow> json_perm (JDict kvs) (JDict kvs')"

text \<open>
  The parts of a Resource that the classifier reads: its documents, its properties, the
  type of a document or property, and an attribute one dictionary down
  (\<open>d.get(outer, {}).get(inner, '')\<close>).
\<close>

definition documents_of :: "json \<Rightarrow> json list" where
  "documents_of r =
     (case r of
        JDict kvs \<Rightarrow> (case dict_get kvs ''documents'' (JList []) of JList ds \<Rightarrow> ds | _ \<Rightarrow> [])
      | _ \<Rightarrow> [])"

definition properties_of :: "json \<Rightarrow> json list" where
  "properties_of r =
     (case r of
        JDict kvs \<Rightarrow> (case dict_get kvs ''properties'' (JList []) of JList ps \<Rightarrow> ps | _ \<Rightarrow> [])
      | _ \<Rightarrow> [])"

definition has_type :: "string \<Rightarrow> json \<Rightarrow> bool" where
  "has_type t d = (case d of JDict kvs \<Rightarrow> map_of kvs ''type'' = Some (JStr t) | _ \<Rightarrow> False)"

definition nested_get :: "json \<Rightarrow> string \<Rightarrow> string \<Rightarrow> json" where
  "nested_get d outer inner =
     (case d of
        JDict kvs \<Rightarrow>
          (case dict_get kvs outer (JDict []) of
             JDict m \<Rightarrow> dict_get m inner (JStr '''')
           | _ \<Rightarrow> JNull)
      | _ \<Rightarrow> JNull)"

text \<open>A non-empty URL-shaped value: a string that starts with \<open>http\<close>.\<close>

definition is_url :: "json \<Rightarrow> bool" where
  "is_url v = (case v of JStr s \<Rightarrow> startswith s ''http'' | _ \<Rightarrow> False)"

definition has_image_url :: "json \<Rightarrow> bool" where
  "has_image_url r =
     (\<exists>p \<in> set (properties_of r). has_type ''IMAGE'' p \<and> is_url (nested_get p ''data'' ''url''))"

text \<open>
  The classification rule in the specification's words: some \<open>map\<close> document carries
  a URL-shaped image identifier, or some \<open>IMAGE\<close> property carries a URL and the
  resource has a \<open>map\<close> document.
\<close>

definition spec_scene_rule :: "json \<Rightarrow> bool" where
  "spec_scene_rule r =
     ((\<exists>d \<in> set (documents_of r). has_type ''map'' d \<and> is_url (nested_get d ''map'' ''mapId''))
      \<or> (has_image_url r \<and> (\<exists>d \<in> set (documents_of r). has_type ''map'' d)))"

text \<open>The rule of the code: only the first \<open>map\<close> document is looked at.\<close>

definition first_map_scene_rule :: "json \<Rightarrow> bool" where
  "first_map_scene_rule r =
     (case find (has_type ''map'') (documents_of r) of
        None \<Rightarrow> False
      | Some d \<Rightarrow> is_url (nested_get d ''map'' ''mapId'') \<or> has_image_url r)"

text \<open>
  The shape of a Resource that the classifier reads without raising: a dictionary whose
  \<open>documents\<close> and \<open>properties\<close> are lists of dictionaries (or are missing); the \<open>map\<close>
  of a \<open>map\<close> document and the \<open>data\<close> of an \<open>IMAGE\<close> property are dictionaries (or
  missing), and their \<open>mapId\<close> and \<open>url\<close> are strings, missing, or a value that counts
  as false.
\<close>

definition text_or_empty :: "json \<Rightarrow> bool" where
  "text_or_empty v = (case v of JStr _ \<Rightarrow> True | _ \<Rightarrow> \<not> py_truthy v)"

definition shaped :: "string \<Rightarrow> string \<Rightarrow> string \<Rightarrow> json \<Rightarrow> bool" where
  "shaped t outer inner d =
     (case d of
        JDict kvs \<Rightarrow>
          has_type t d \<longrightarrow>
            (case dict_get kvs outer (JDict []) of
               JDict m \<Rightarrow> text_or_empty (dict_get m inner (JStr ''''))
             | _ \<Rightarrow> False)
      | _ \<Rightarrow> False)"

definition well_shaped_resource :: "json \<Rightarrow> bool" where
  "well_shaped_resource r =
     (case r of
        JDict kvs \<Rightarrow>
          (case dict_get kvs ''documents'' (JList []) of
             JList ds \<Rightarrow> list_all (shaped ''map'' ''map'' ''mapId'') ds
           | _ \<Rightarrow> False)
          \<and> (case dict_get kvs ''properties'' (JList []) of
               JList ps \<Rightarrow> list_all (shaped ''IMAGE'' ''data'' ''url'') ps
             | _ \<Rightarrow> False)
      | _ \<Rightarrow> False)"

text \<open>
  The key under which the resolution pass stores a resource:
  \<open>resource.get('id', '')\<close>, as a dictionary key.
\<close>

definition source_key :: "json \<Rightarrow> key result" where
  "source_key resource = and_then (py_get resource ''id'' (JStr '''')) py_key"

text \<open>The identifiers that \<open>n\<close> successive calls of \<open>generate_id()\<close> return.\<close>

fun generated_ids :: "nat \<Rightarrow> rng \<Rightarrow> string list" where
  "generated_ids 0 g = []"
| "generated_ids (Suc n) g = fst (generate_id 16 g) # generated_ids n (snd (generate_id 16 g))"

text \<open>The table that the resolution pass returns (empty when it raises).\<close>

definition table_of :: "(resource_id_map \<times> rng) result \<Rightarrow> resource_id_map" where
  "table_of r = (case r of Inr (tbl, g) \<Rightarrow> tbl | Inl e \<Rightarrow> Map.empty)"

text \<open>
  What a builder returns, read through its result: the pages of a journal entry, the
  biography of an actor and the description of an item.
\<close>

definition pages_of :: "(journal_entry \<times> rng) result \<Rightarrow> page list" where
  "pages_of r = (case r of Inr (entry, g) \<Rightarrow> entry_pages entry | Inl e \<Rightarrow> [])"

definition biography_of :: "(actor \<times> rng) result \<Rightarrow> string option" where
  "biography_of r = (case r of Inr (a, g) \<Rightarrow> Some (actor_biography a) | Inl e \<Rightarrow> None)"

definition description_of :: "(item \<times> rng) result \<Rightarrow> string option" where
  "description_of r = (case r of Inr (i, g) \<Rightarrow> Some (item_description i) | Inl e \<Rightarrow> None)"

section \<open>Properties of the transducer\<close>

text \<open>
  C10: for every top-level input that is not a dictionary node (\<open>None\<close>, a list, a bare
  string, a number) and for the empty dictionary, \<open>convert_prosemirror_to_html\<close>
  returns the empty string; it neither raises nor returns \<open>None\<close>.
\<close>

theorem convert_non_dict_empty:
  assumes "\<not> is_dict content \<or> content = JDict []"
  shows "convert_prosemirror_to_html content im resource_id_map = Inr (JStr '''')"
  using assms
  by (cases content) (auto simp: convert_prosemirror_to_html_def is_dict_def py_truthy_def)

theorem convert_non_dict_empty_witness:
  "convert_prosemirror_to_html JNull Map.empty None = Inr (JStr '''')
   \<and> convert_prosemirror_to_html (JDict []) Map.empty None = Inr (JStr '''')
   \<and> convert_prosemirror_to_html (JList [JDict [(''type'', JStr ''rule'')]]) Map.empty None
       = Inr (JStr '''')
   \<and> convert_prosemirror_to_html (JStr ''doc'') Map.empty None = Inr (JStr '''')"
  using convert_non_dict_empty [of JNull Map.empty None]
        convert_non_dict_empty [of "JDict []" Map.empty None]
        convert_non_dict_empty [of "JList [JDict [(''type'', JStr ''rule'')]]" Map.empty None]
        convert_non_dict_empty [of "JStr ''doc''" Map.empty None]
  by (simp add: is_dict_def)

text \<open>The branch of \<open>process_node\<close> for a mention, unfolded once.\<close>

lemma process_node_mention:
  assumes "dict_get kvs ''type'' (JStr '''') = JStr ''mention''"
  shows "process_node im rm (JDict kvs) =
     and_then (py_get (dict_get kvs ''attrs'' (JDict [])) ''text'' (JStr '''')) (\<lambda>mention_text.
     and_then (py_get (dict_get kvs ''attrs'' (JDict [])) ''id'' (JStr '''')) (\<lambda>resource_id.
     and_then (id_lookup rm resource_id) (\<lambda>found.
       case found of
         Some (foundry_id, doc_type) \<Rightarrow>
           Inr (JStr (''@UUID['' @ doc_type @ ''.'' @ foundry_id @ '']{''
                      @ py_str mention_text @ ''}''))
       | None \<Rightarrow> Inr mention_text)))"
  by (subst process_node.simps) (simp add: assms Let_def)

text \<open>
  C1: a mention node is a dictionary of type \<open>mention\<close> whose attributes are a
  dictionary \<open>as\<close> (or are missing) and whose target identifier \<open>as.get('id', '')\<close> is a
  value that can be a key, \<open>k\<close>. When \<open>k\<close> is a key of the Identifier Resolution Table,
  with target identifier \<open>foundry_id\<close> and target kind \<open>doc_type\<close>, the node renders to
  the token \<open>@UUID[doc_type.foundry_id]{text}\<close> with the display text as label, and
  that is not the plain display text; when \<open>k\<close> is no key of the table, the node renders
  to exactly the display text. The same holds for the node as the top-level input of
  \<open>convert_prosemirror_to_html\<close>.
\<close>

theorem mention_render:
  assumes "dict_get kvs ''type'' (JStr '''') = JStr ''mention''"
      and "dict_get kvs ''attrs'' (JDict []) = JDict as"
      and "py_key (dict_get as ''id'' (JStr '''')) = Inr k"
  shows "(\<forall>foundry_id doc_type. rm k = Some (foundry_id, doc_type) \<longrightarrow>
            process_node im rm (JDict kvs) =
              Inr (JStr (''@UUID['' @ doc_type @ ''.'' @ foundry_id @ '']{''
                         @ py_str (dict_get as ''text'' (JStr '''')) @ ''}''))
            \<and> process_node im rm (JDict kvs) \<noteq> Inr (dict_get as ''text'' (JStr '''')))
       \<and> (rm k = None \<longrightarrow>
            process_node im rm (JDict kvs) = Inr (dict_get as ''text'' (JStr '''')))
       \<and> convert_prosemirror_to_html (JDict kvs) im (Some rm) = process_node im rm (JDict kvs)"
proof -
  have ne: "kvs \<noteq> []"
    using assms(1) by (auto simp: dict_get_def)
  have conv: "convert_prosemirror_to_html (JDict kvs) im (Some rm) = process_node im rm (JDict kvs)"
    using ne by (simp add: convert_prosemirror_to_html_def py_truthy_def is_dict_def)
  have len: "JStr (''@UUID['' @ d @ ''.'' @ f @ '']{'' @ py_str t @ ''}'') \<noteq> t" for d f t
    by (cases t) (auto simp: py_str_def dest: arg_cong [where f = length])
  show ?thesis
    using conv len
    by (auto simp: process_node_mention [OF assms(1)] assms(2,3) py_get_def and_then_def
        id_lookup_def)
qed

theorem mention_render_witness:
  "process_node Map.empty [KStr ''r1'' \<mapsto> (''Ab12'', ''Scene'')]
     (JDict [(''type'', JStr ''mention''),
             (''attrs'', JDict [(''id'', JStr ''r1''), (''text'', JStr ''Bob'')])])
     = Inr (JStr ''@UUID[Scene.Ab12]{Bob}'')
   \<and> process_node Map.empty [KStr ''r2'' \<mapsto> (''Ab12'', ''Scene'')]
     (JDict [(''type'', JStr ''mention''),
             (''attrs'', JDict [(''id'', JStr ''r1''), (''text'', JStr ''Bob'')])])
     = Inr (JStr ''Bob'')"
  using mention_render [of "[(''type'', JStr ''mention''),
             (''attrs'', JDict [(''id'', JStr ''r1''), (''text'', JStr ''Bob'')])]"
          "[(''id'', JStr ''r1''), (''text'', JStr ''Bob'')]" "KStr ''r1''"
          "[KStr ''r1'' \<mapsto> (''Ab12'', ''Scene'')]" Map.empty]
        mention_render [of "[(''type'', JStr ''mention''),
             (''attrs'', JDict [(''id'', JStr ''r1''), (''text'', JStr ''Bob'')])]"
          "[(''id'', JStr ''r1''), (''text'', JStr ''Bob'')]" "KStr ''r1''"
          "[KStr ''r2'' \<mapsto> (''Ab12'', ''Scene'')]" Map.empty]
  by (simp add: dict_get_def py_key_def py_str_def)

text \<open>The branch of \<open>process_node\<close> for a \<open>bodiedExtension\<close>, unfolded once.\<close>

lemma process_node_bodied:
  assumes "dict_get kvs ''type'' (JStr '''') = JStr ''bodiedExtension''"
  shows "process_node im rm (JDict kvs) =
     and_then (py_get (dict_get kvs ''attrs'' (JDict [])) ''extensionKey'' (JStr '''')) (\<lambda>ext_key.
     and_then (py_get (dict_get kvs ''attrs'' (JDict [])) ''parameters'' (JDict [])) (\<lambda>parameters.
     and_then (py_get parameters ''extensionTitle'' (JStr ''Secret'')) (\<lambda>ext_title.
     and_then (render_children im rm (dict_get kvs ''content'' (JList []))) (\<lambda>s.
       Inr (JStr (''<div class=\"secret\"><strong>'' @ py_str ext_title @ '':</strong> ''
                  @ py_str s @ ''</div>''))))))"
  by (subst process_node.simps) (simp add: assms Let_def render_children_def)

text \<open>
  C5, as the code has it: for a \<open>bodiedExtension\<close> node whose attributes are a dictionary
  (or missing), whose \<open>parameters\<close> attribute is a dictionary \<open>ps\<close> (or missing) and
  whose children render to the string \<open>inner\<close>, \<open>process_node\<close> returns
  \<open><div class="secret"><strong>{title}:</strong> {inner}</div>\<close>, with one space
  between \<open></strong>\<close> and the children; the title is \<open>ps.get('extensionTitle')\<close>
  and defaults to \<open>Secret\<close>.
\<close>

theorem bodied_extension_render:
  assumes "dict_get kvs ''type'' (JStr '''') = JStr ''bodiedExtension''"
      and "dict_get kvs ''attrs'' (JDict []) = JDict as"
      and "dict_get as ''parameters'' (JDict []) = JDict ps"
      and "render_children im rm (dict_get kvs ''content'' (JList [])) = Inr (JStr inner)"
  shows "process_node im rm (JDict kvs) =
           Inr (JStr (''<div class=\"secret\"><strong>''
                      @ py_str (dict_get ps ''extensionTitle'' (JStr ''Secret''))
                      @ '':</strong> '' @ inner @ ''</div>''))"
  by (simp add: process_node_bodied [OF assms(1)] assms(2,3,4) py_get_def and_then_def
      py_str_def)

theorem bodied_extension_render_witness:
  "process_node Map.empty Map.empty
     (JDict [(''type'', JStr ''bodiedExtension''),
             (''attrs'', JDict [(''parameters'', JDict [(''extensionTitle'', JStr ''GM only'')])]),
             (''content'', JList [JDict [(''type'', JStr ''text''), (''text'', JStr ''x'')]])])
     = Inr (JStr ''<div class=\"secret\"><strong>GM only:</strong> x</div>'')"
proof -
  have "render_children Map.empty Map.empty
          (JList [JDict [(''type'', JStr ''text''), (''text'', JStr ''x'')]]) = Inr (JStr ''x'')"
    by (simp add: render_children_def process_node.simps dict_get_def py_get_def and_then_def
        py_iter_def py_join_def)
  then show ?thesis
    using bodied_extension_render [of
        "[(''type'', JStr ''bodiedExtension''),
          (''attrs'', JDict [(''parameters'', JDict [(''extensionTitle'', JStr ''GM only'')])]),
          (''content'', JList [JDict [(''type'', JStr ''text''), (''text'', JStr ''x'')]])]"
        "[(''parameters'', JDict [(''extensionTitle'', JStr ''GM only'')])]"
        "[(''extensionTitle'', JStr ''GM only'')]" Map.empty Map.empty "''x''"]
    by (simp add: dict_get_def py_str_def)
qed

text \<open>
  The claim as the specification states it fails: a \<open>bodiedExtension\<close> without title
  and with the one child \<open>x\<close> renders with a space before the \<open>x\<close>.
\<close>

theorem bodied_extension_counterexample:
  "process_node Map.empty Map.empty
     (JDict [(''type'', JStr ''bodiedExtension''),
             (''content'', JList [JDict [(''type'', JStr ''text''), (''text'', JStr ''x'')]])])
     = Inr (JStr ''<div class=\"secret\"><strong>Secret:</strong> x</div>'')
   \<and> process_node Map.empty Map.empty
     (JDict [(''type'', JStr ''bodiedExtension''),
             (''content'', JList [JDict [(''type'', JStr ''text''), (''text'', JStr ''x'')]])])
     \<noteq> Inr (JStr (spec_secret_div ''Secret'' ''x''))"
  by (simp add: process_node.simps dict_get_def py_get_def and_then_def py_iter_def py_join_def
      py_str_def spec_secret_div_def)

section \<open>Properties of the asset locator\<close>

text \<open>The set that \<open>extract_urls\<close> returns, by the shape of the value.\<close>

lemma fold_extract_urls:
  assumes "\<And>x acc. x \<in> set xs \<Longrightarrow> extract_urls x acc = acc \<union> extract_urls x {}"
  shows "fold extract_urls xs acc = acc \<union> (\<Union>x\<in>set xs. extract_urls x {})"
  using assms
proof (induction xs arbitrary: acc)
  case Nil
  show ?case by simp
next
  case (Cons x xs)
  have head: "extract_urls x acc = acc \<union> extract_urls x {}"
    by (rule Cons.prems) simp
  have tail: "fold extract_urls xs (extract_urls x acc)
                = extract_urls x acc \<union> (\<Union>y\<in>set xs. extract_urls y {})"
    by (rule Cons.IH) (rule Cons.prems, simp)
  have "fold extract_urls (x # xs) acc = fold extract_urls xs (extract_urls x acc)"
    by simp
  also have "\<dots> = (acc \<union> extract_urls x {}) \<union> (\<Union>y\<in>set xs. extract_urls y {})"
    by (simp only: tail head [symmetric])
  finally show ?case by auto
qed

lemma extract_urls_acc: "extract_urls obj acc = acc \<union> extract_urls obj {}"
proof (induction obj acc rule: extract_urls.induct)
  case (1 kvs urls)
  have *: "fold extract_urls (map snd kvs) a = a \<union> (\<Union>x\<in>set (map snd kvs). extract_urls x {})" for a
    by (rule fold_extract_urls) (use 1 in blast)
  have **: "add_asset kvs k a = a \<union> add_asset kvs k {}" for k a
    by (simp add: add_asset_def split: option.split json.split)
  show ?case
    apply (simp only: extract_urls.simps *)
    apply (subst ** [of "''mapId''" "add_asset kvs ''url'' urls"])
    apply (subst ** [of "''url''" urls])
    apply (subst ** [of "''mapId''" "add_asset kvs ''url'' {}"])
    apply auto
    done
next
  case (2 xs urls)
  have *: "fold extract_urls xs a = a \<union> (\<Union>x\<in>set xs. extract_urls x {})" for a
    by (rule fold_extract_urls) (use 2 in blast)
  show ?case by (simp only: extract_urls.simps *) auto
qed simp_all

lemma add_asset_acc: "add_asset kvs k a = a \<union> add_asset kvs k {}"
  by (simp add: add_asset_def split: option.split json.split)

lemma add_asset_empty:
  "add_asset kvs k {} = {s. map_of kvs k = Some (JStr s) \<and> str_contains asset_host s}"
proof (cases "map_of kvs k")
  case None
  then show ?thesis by (simp add: add_asset_def)
next
  case (Some v)
  then show ?thesis by (cases v) (auto simp: add_asset_def)
qed

lemma add_asset_both:
  "add_asset kvs ''mapId'' (add_asset kvs ''url'' {}) = direct_urls kvs"
  by (subst add_asset_acc) (auto simp: add_asset_empty direct_urls_def)

lemma collect_dict:
  "collect_image_urls (JDict kvs) = direct_urls kvs \<union> (\<Union>v\<in>snd ` set kvs. collect_image_urls v)"
proof -
  have "fold extract_urls (map snd kvs) a = a \<union> (\<Union>x\<in>set (map snd kvs). extract_urls x {})" for a
    by (rule fold_extract_urls) (rule extract_urls_acc)
  then show ?thesis
    by (simp add: collect_image_urls_def add_asset_both)
qed

lemma collect_list:
  "collect_image_urls (JList xs) = (\<Union>x\<in>set xs. collect_image_urls x)"
proof -
  have "fold extract_urls xs a = a \<union> (\<Union>x\<in>set xs. extract_urls x {})" for a
    by (rule fold_extract_urls) (rule extract_urls_acc)
  then show ?thesis
    by (simp add: collect_image_urls_def)
qed

lemma collect_scalar:
  "collect_image_urls JNull = {}" "collect_image_urls (JBool b) = {}"
  "collect_image_urls (JInt i) = {}" "collect_image_urls (JStr s) = {}"
  by (simp_all add: collect_image_urls_def)

lemma subnodes_trans:
  assumes "n \<in> subnodes m" and "m \<in> subnodes root"
  shows "n \<in> subnodes root"
  using assms
proof (induction rule: subnodes.induct)
  case root
  then show ?case .
next
  case (item xs x)
  then show ?case by (blast intro: subnodes.item)
next
  case (dict_value kvs k v)
  then show ?case by (blast intro: subnodes.dict_value)
qed

lemma collect_subnode_subset:
  assumes "n \<in> subnodes root"
  shows "collect_image_urls n \<subseteq> collect_image_urls root"
  using assms
proof (induction rule: subnodes.induct)
  case root
  show ?case by simp
next
  case (item xs x)
  then have "collect_image_urls x \<subseteq> collect_image_urls (JList xs)"
    by (auto simp: collect_list)
  with item.IH show ?case by blast
next
  case (dict_value kvs k v)
  then have "v \<in> snd ` set kvs" by force
  then have "collect_image_urls v \<subseteq> collect_image_urls (JDict kvs)"
    by (auto simp: collect_dict)
  with dict_value.IH show ?case by blast
qed

lemma collect_sound:
  "s \<in> collect_image_urls obj \<Longrightarrow> \<exists>kvs. JDict kvs \<in> subnodes obj \<and> s \<in> direct_urls kvs"
proof (induction obj arbitrary: s)
  case (JList xs)
  then obtain x where x: "x \<in> set xs" "s \<in> collect_image_urls x"
    by (auto simp: collect_list)
  with JList.IH obtain kvs where "JDict kvs \<in> subnodes x" "s \<in> direct_urls kvs" by blast
  moreover have "x \<in> subnodes (JList xs)"
    using x(1) by (blast intro: subnodes.intros)
  ultimately show ?case by (blast intro: subnodes_trans)
next
  case (JDict kvs)
  from JDict.prems consider "s \<in> direct_urls kvs"
    | k v where "(k, v) \<in> set kvs" "s \<in> collect_image_urls v"
    by (auto simp: collect_dict)
  then show ?case
  proof cases
    case 1
    then show ?thesis by (blast intro: subnodes.root)
  next
    case 2
    then have "v \<in> Basic_BNFs.snds (k, v)" by simp
    with JDict.IH 2 obtain kvs' where "JDict kvs' \<in> subnodes v" "s \<in> direct_urls kvs'"
      by blast
    moreover have "v \<in> subnodes (JDict kvs)"
      using 2(1) by (blast intro: subnodes.intros)
    ultimately show ?thesis by (blast intro: subnodes_trans)
  qed
qed (simp_all add: collect_scalar)

text \<open>
  What \<open>collect_image_urls\<close> computes: a string is in the set exactly when it appears
  in the input under a key named \<open>url\<close> or \<open>mapId\<close> and contains the host name
  \<open>assets.legendkeeper.com\<close> somewhere (the test is \<open>in\<close>, a substring test).
\<close>

theorem collect_image_urls_exact:
  "s \<in> collect_image_urls data \<longleftrightarrow>
     (under_key data ''url'' s \<or> under_key data ''mapId'' s) \<and> str_contains asset_host s"
proof
  assume "s \<in> collect_image_urls data"
  then obtain kvs where "JDict kvs \<in> subnodes data" "s \<in> direct_urls kvs"
    using collect_sound by blast
  then show "(under_key data ''url'' s \<or> under_key data ''mapId'' s) \<and> str_contains asset_host s"
    by (auto simp: under_key_def direct_urls_def)
next
  assume r: "(under_key data ''url'' s \<or> under_key data ''mapId'' s) \<and> str_contains asset_host s"
  then obtain kvs where kvs: "JDict kvs \<in> subnodes data" "s \<in> direct_urls kvs"
    by (auto simp: under_key_def direct_urls_def)
  then have "s \<in> collect_image_urls (JDict kvs)" by (simp add: collect_dict)
  with collect_subnode_subset [OF kvs(1)] show "s \<in> collect_image_urls data" by blast
qed

theorem collect_image_urls_exact_witness:
  "''https://assets.legendkeeper.com/x.png''
     \<in> collect_image_urls
         (JDict [(''resources'',
            JList [JDict [(''banner'', JDict [(''url'', JStr ''https://assets.legendkeeper.com/x.png'')])]])])"
proof -
  let ?banner = "[(''url'', JStr ''https://assets.legendkeeper.com/x.png'')]"
  let ?resource = "[(''banner'', JDict ?banner)]"
  let ?data = "JDict [(''resources'', JList [JDict ?resource])]"
  have "JList [JDict ?resource] \<in> subnodes ?data"
    by (rule subnodes.dict_value [OF subnodes.root]) simp
  then have "JDict ?resource \<in> subnodes ?data"
    by (rule subnodes.item) simp
  then have "JDict ?banner \<in> subnodes ?data"
    by (rule subnodes.dict_value) simp
  then have "under_key ?data ''url'' ''https://assets.legendkeeper.com/x.png''"
    unfolding under_key_def by (intro exI [of _ ?banner]) simp
  moreover have "str_contains asset_host ''https://assets.legendkeeper.com/x.png''"
    by (simp add: asset_host_def startswith_def)
  ultimately show ?thesis
    using collect_image_urls_exact [of "''https://assets.legendkeeper.com/x.png''" ?data]
    by simp
qed

text \<open>
  C3: the asset locator does not keep to URLs of the asset host. The substring test is
  the host filter of the code (\<open>download_image\<close>, line 28: ``Skip non-asset URLs (like
  legendkeeper.com pages)''), and it lets through a URL of another host that has the
  name of the asset host in its path or query: both a page of \<open>www.legendkeeper.com\<close>
  and a URL of an unrelated host are in the set that \<open>collect_image_urls\<close> returns,
  and neither begins with the asset host.
\<close>

theorem collect_image_urls_foreign_host:
  "''http://evil.example/assets.legendkeeper.com''
     \<in> collect_image_urls (JDict [(''url'', JStr ''http://evil.example/assets.legendkeeper.com'')])
   \<and> \<not> begins_with_asset_host ''http://evil.example/assets.legendkeeper.com''
   \<and> ''https://www.legendkeeper.com/p?next=assets.legendkeeper.com''
     \<in> collect_image_urls
         (JDict [(''resources'', JList [JDict [(''banner'',
            JDict [(''url'', JStr ''https://www.legendkeeper.com/p?next=assets.legendkeeper.com'')])]])])
   \<and> \<not> begins_with_asset_host ''https://www.legendkeeper.com/p?next=assets.legendkeeper.com''"
  by (simp add: collect_image_urls_def add_asset_def asset_host_def startswith_def
      begins_with_asset_host_def)

text \<open>Reordering lists changes neither the set nor which values are strings.\<close>

lemma list_all2_image_eq:
  "list_all2 (\<lambda>a b. f a = f b) xs ys \<Longrightarrow> f ` set xs = f ` set ys"
  by (induction rule: list_all2_induct) auto

lemma map_of_perm:
  assumes "list_all2 (\<lambda>kv kv'. fst kv = fst kv' \<and> (\<forall>s. snd kv = JStr s \<longleftrightarrow> snd kv' = JStr s)) kvs kvs'"
  shows "map_of kvs k = Some (JStr s) \<longleftrightarrow> map_of kvs' k = Some (JStr s)"
  using assms by (induction rule: list_all2_induct) auto

lemma json_perm_collect:
  "json_perm a b \<Longrightarrow> collect_image_urls a = collect_image_urls b \<and> (\<forall>s. a = JStr s \<longleftrightarrow> b = JStr s)"
proof (induction rule: json_perm.induct)
  case (list xs zs ys)
  then have "list_all2 (\<lambda>a b. collect_image_urls a = collect_image_urls b) xs zs"
    by (auto elim: list_all2_mono)
  then have "collect_image_urls ` set xs = collect_image_urls ` set zs"
    by (rule list_all2_image_eq)
  moreover have "set zs = set ys" using list.hyps by (auto dest: mset_eq_setD)
  ultimately show ?case by (simp add: collect_list)
next
  case (dict kvs kvs')
  have keys: "list_all2 (\<lambda>kv kv'. fst kv = fst kv' \<and> (\<forall>s. snd kv = JStr s \<longleftrightarrow> snd kv' = JStr s)) kvs kvs'"
    using dict by (auto elim!: list_all2_mono)
  have "direct_urls kvs = direct_urls kvs'"
    by (auto simp: direct_urls_def map_of_perm [OF keys])
  moreover have "list_all2 (\<lambda>kv kv'. collect_image_urls (snd kv) = collect_image_urls (snd kv')) kvs kvs'"
    using dict by (auto elim!: list_all2_mono)
  then have "(\<lambda>kv. collect_image_urls (snd kv)) ` set kvs = (\<lambda>kv. collect_image_urls (snd kv)) ` set kvs'"
    by (rule list_all2_image_eq)
  then have "collect_image_urls ` snd ` set kvs = collect_image_urls ` snd ` set kvs'"
    by (simp add: image_image)
  ultimately show ?case by (simp add: collect_dict)
qed simp_all

text \<open>
  C9: when \<open>b\<close> is \<open>a\<close> with the lists nested inside it permuted, the asset locator
  returns the same set of URLs for both.
\<close>

theorem collect_order_independent:
  "json_perm a b \<Longrightarrow> collect_image_urls a = collect_image_urls b"
  by (simp add: json_perm_collect)

lemma json_perm_refl: "json_perm a a"
proof (induction a)
  case (JList xs)
  then have "list_all2 json_perm xs xs" by (simp add: list_all2_same)
  then show ?case by (rule json_perm.list) simp
next
  case (JDict kvs)
  then have "list_all2 (\<lambda>kv kv'. fst kv = fst kv' \<and> json_perm (snd kv) (snd kv')) kvs kvs"
    by (fastforce simp: list_all2_same)
  then show ?case by (rule json_perm.dict)
qed (auto intro: json_perm.intros)

theorem collect_order_independent_witness:
  "json_perm
     (JDict [(''resources'', JList [JDict [(''url'', JStr ''http://assets.legendkeeper.com/a'')],
                                   JDict [(''mapId'', JStr ''http://assets.legendkeeper.com/b'')]])])
     (JDict [(''resources'', JList [JDict [(''mapId'', JStr ''http://assets.legendkeeper.com/b'')],
                                   JDict [(''url'', JStr ''http://assets.legendkeeper.com/a'')]])])
   \<and> collect_image_urls
     (JDict [(''resources'', JList [JDict [(''url'', JStr ''http://assets.legendkeeper.com/a'')],
                                   JDict [(''mapId'', JStr ''http://assets.legendkeeper.com/b'')]])])
     = collect_image_urls
     (JDict [(''resources'', JList [JDict [(''mapId'', JStr ''http://assets.legendkeeper.com/b'')],
                                   JDict [(''url'', JStr ''http://assets.legendkeeper.com/a'')]])])
   \<and> collect_image_urls
     (JDict [(''resources'', JList [JDict [(''mapId'', JStr ''http://assets.legendkeeper.com/b'')],
                                   JDict [(''url'', JStr ''http://assets.legendkeeper.com/a'')]])])
     = {''http://assets.legendkeeper.com/a'', ''http://assets.legendkeeper.com/b''}"
proof -
  let ?x = "JDict [(''url'', JStr ''http://assets.legendkeeper.com/a'')]"
  let ?y = "JDict [(''mapId'', JStr ''http://assets.legendkeeper.com/b'')]"
  have "list_all2 json_perm [?x, ?y] [?x, ?y]"
    by (simp add: json_perm_refl)
  then have "json_perm (JList [?x, ?y]) (JList [?y, ?x])"
    by (rule json_perm.list) simp
  then have p: "json_perm (JDict [(''resources'', JList [?x, ?y])])
                          (JDict [(''resources'', JList [?y, ?x])])"
    by (intro json_perm.dict) simp
  have "collect_image_urls (JDict [(''resources'', JList [?y, ?x])])
          = {''http://assets.legendkeeper.com/a'', ''http://assets.legendkeeper.com/b''}"
    by (simp add: collect_image_urls_def add_asset_def asset_host_def startswith_def insert_commute)
  with p collect_order_independent [OF p] show ?thesis by simp
qed

section \<open>Properties of the classifier\<close>

lemma py_get_dict: "py_get (JDict kvs) k d = Inr (dict_get kvs k d)"
  by (simp add: py_get_def)

lemma and_then_simps: "and_then (Inr x) f = f x" "and_then (Inl e) f = Inl e"
  by (simp_all add: and_then_def)

lemma nested_get_dict:
  "dict_get kvs outer (JDict []) = JDict m
     \<Longrightarrow> nested_get (JDict kvs) outer inner = dict_get m inner (JStr '''')"
  by (simp add: nested_get_def)

lemma url_shaped_text: "text_or_empty v \<Longrightarrow> url_shaped v = Inr (is_url v)"
  by (cases v) (auto simp: text_or_empty_def url_shaped_def is_url_def py_truthy_def startswith_def)

lemma shaped_step:
  assumes "shaped t outer inner d"
  obtains kvs where "d = JDict kvs" "\<not> has_type t d"
  | kvs m where "d = JDict kvs" "has_type t d" "dict_get kvs outer (JDict []) = JDict m"
      "text_or_empty (dict_get m inner (JStr ''''))"
  using assms by (auto simp: shaped_def split: json.splits)

lemma scan_image_properties_shaped:
  assumes "list_all (shaped ''IMAGE'' ''data'' ''url'') ps"
  shows "scan_image_properties ps =
           Inr (\<exists>p \<in> set ps. has_type ''IMAGE'' p \<and> is_url (nested_get p ''data'' ''url''))"
  using assms
proof (induction ps)
  case Nil
  show ?case by simp
next
  case (Cons p ps)
  then have sh: "shaped ''IMAGE'' ''data'' ''url'' p" and rest: "list_all (shaped ''IMAGE'' ''data'' ''url'') ps"
    by simp_all
  note IH = Cons.IH [OF rest]
  from sh show ?case
  proof (cases rule: shaped_step)
    case (1 kvs)
    then have "dict_get kvs ''type'' JNull \<noteq> JStr ''IMAGE''"
      by (auto simp: has_type_def dict_get_def split: option.splits)
    with 1 IH show ?thesis
      by (simp add: py_get_def and_then_def)
  next
    case (2 kvs m)
    then have "dict_get kvs ''type'' JNull = JStr ''IMAGE''"
      by (auto simp: has_type_def dict_get_def split: option.splits)
    with 2 IH show ?thesis
      by (auto simp: py_get_dict and_then_simps url_shaped_text nested_get_dict)
  qed
qed

lemma classify_documents_shaped:
  assumes "list_all (shaped ''map'' ''map'' ''mapId'') ds"
      and "py_get r ''properties'' (JList []) = Inr (JList ps)"
      and "list_all (shaped ''IMAGE'' ''data'' ''url'') ps"
  shows "classify_documents r ds =
           Inr (if (case find (has_type ''map'') ds of
                      None \<Rightarrow> False
                    | Some d \<Rightarrow> is_url (nested_get d ''map'' ''mapId'')
                        \<or> (\<exists>p \<in> set ps. has_type ''IMAGE'' p \<and> is_url (nested_get p ''data'' ''url'')))
                then ''Scene'' else ''JournalEntry'')"
  using assms(1)
proof (induction ds)
  case Nil
  show ?case by simp
next
  case (Cons d ds)
  then have sh: "shaped ''map'' ''map'' ''mapId'' d" and rest: "list_all (shaped ''map'' ''map'' ''mapId'') ds"
    by simp_all
  note IH = Cons.IH [OF rest]
  from sh show ?case
  proof (cases rule: shaped_step)
    case (1 kvs)
    then have "dict_get kvs ''type'' JNull \<noteq> JStr ''map''"
      by (auto simp: has_type_def dict_get_def split: option.splits)
    with 1 IH show ?thesis
      by (simp add: py_get_def and_then_def)
  next
    case (2 kvs m)
    then have "dict_get kvs ''type'' JNull = JStr ''map''"
      by (auto simp: has_type_def dict_get_def split: option.splits)
    with 2 show ?thesis
      by (auto simp: py_get_dict and_then_simps url_shaped_text nested_get_dict assms(2)
          py_iter_def scan_image_properties_shaped [OF assms(3)])
  qed
qed

lemma find_SomeD: "find P xs = Some x \<Longrightarrow> x \<in> set xs \<and> P x"
  by (induction xs) (auto split: if_splits)

lemma first_map_implies_spec: "first_map_scene_rule r \<Longrightarrow> spec_scene_rule r"
  by (auto simp: first_map_scene_rule_def spec_scene_rule_def split: option.splits
      dest!: find_SomeD)

text \<open>
  C2, as the code has it: for a well-shaped Resource the classifier returns \<open>Scene\<close>
  exactly when the resource has a \<open>map\<close> document and either the first \<open>map\<close> document
  carries a \<open>mapId\<close> that starts with \<open>http\<close> or some \<open>IMAGE\<close> property carries a \<open>url\<close>
  that starts with \<open>http\<close>; otherwise it returns \<open>JournalEntry\<close>. The \<open>map\<close> documents
  after the first are not looked at. Every resource classified \<open>Scene\<close> meets the rule
  of the specification.
\<close>

theorem classify_resource_first_map:
  assumes "well_shaped_resource r"
  shows "classify_resource r = Inr (if first_map_scene_rule r then ''Scene'' else ''JournalEntry'')
         \<and> (first_map_scene_rule r \<longrightarrow> spec_scene_rule r)"
proof -
  from assms obtain kvs ds ps where r: "r = JDict kvs"
    and ds: "dict_get kvs ''documents'' (JList []) = JList ds" "list_all (shaped ''map'' ''map'' ''mapId'') ds"
    and ps: "dict_get kvs ''properties'' (JList []) = JList ps" "list_all (shaped ''IMAGE'' ''data'' ''url'') ps"
    by (auto simp: well_shaped_resource_def split: json.splits)
  have "py_get r ''properties'' (JList []) = Inr (JList ps)"
    using r ps(1) by (simp add: py_get_def)
  from classify_documents_shaped [OF ds(2) this ps(2)] first_map_implies_spec [of r]
  show ?thesis
    using r ds(1) ps(1)
    by (simp add: classify_resource_def py_get_dict and_then_simps py_iter_def
        first_map_scene_rule_def documents_of_def properties_of_def has_image_url_def
        split: option.splits)
qed

theorem classify_resource_first_map_witness:
  "classify_resource
     (JDict [(''documents'',
        JList [JDict [(''type'', JStr ''map''),
                      (''map'', JDict [(''mapId'', JStr ''https://assets.legendkeeper.com/m.webp'')])]])])
     = Inr ''Scene''
   \<and> classify_resource
     (JDict [(''documents'', JList [JDict [(''type'', JStr ''page'')], JDict [(''type'', JStr ''map'')]]),
             (''properties'',
        JList [JDict [(''type'', JStr ''IMAGE''), (''data'', JDict [(''url'', JStr ''http://h/i.png'')])]])])
     = Inr ''Scene''
   \<and> classify_resource
     (JDict [(''documents'', JList [JDict [(''type'', JStr ''page'')]]),
             (''properties'',
        JList [JDict [(''type'', JStr ''IMAGE''), (''data'', JDict [(''url'', JStr ''http://h/i.png'')])]])])
     = Inr ''JournalEntry''"
  using classify_resource_first_map [of
     "JDict [(''documents'',
        JList [JDict [(''type'', JStr ''map''),
                      (''map'', JDict [(''mapId'', JStr ''https://assets.legendkeeper.com/m.webp'')])]])]"]
    classify_resource_first_map [of
     "JDict [(''documents'', JList [JDict [(''type'', JStr ''page'')], JDict [(''type'', JStr ''map'')]]),
             (''properties'',
        JList [JDict [(''type'', JStr ''IMAGE''), (''data'', JDict [(''url'', JStr ''http://h/i.png'')])]])]"]
    classify_resource_first_map [of
     "JDict [(''documents'', JList [JDict [(''type'', JStr ''page'')]]),
             (''properties'',
        JList [JDict [(''type'', JStr ''IMAGE''), (''data'', JDict [(''url'', JStr ''http://h/i.png'')])]])]"]
  by (simp add: well_shaped_resource_def shaped_def has_type_def dict_get_def text_or_empty_def
      first_map_scene_rule_def documents_of_def properties_of_def has_image_url_def is_url_def
      nested_get_def startswith_def)

text \<open>
  The claim as the specification states it fails: a resource with two \<open>map\<close> documents
  of which only the second carries the image identifier meets the rule of the
  specification and is classified \<open>JournalEntry\<close>.
\<close>

theorem classify_resource_counterexample:
  "classify_resource
     (JDict [(''documents'',
        JList [JDict [(''type'', JStr ''map'')],
               JDict [(''type'', JStr ''map''),
                      (''map'', JDict [(''mapId'', JStr ''https://assets.legendkeeper.com/m.webp'')])]])])
     = Inr ''JournalEntry''
   \<and> spec_scene_rule
     (JDict [(''documents'',
        JList [JDict [(''type'', JStr ''map'')],
               JDict [(''type'', JStr ''map''),
                      (''map'', JDict [(''mapId'', JStr ''https://assets.legendkeeper.com/m.webp'')])]])])"
  by (simp add: classify_resource_def py_get_def and_then_def py_iter_def dict_get_def
      url_shaped_def py_truthy_def spec_scene_rule_def documents_of_def has_type_def is_url_def
      nested_get_def startswith_def)

section \<open>Properties of the identifier resolution pass\<close>

lemma length_generated_ids: "length (generated_ids n g) = n"
  by (induction n arbitrary: g) simp_all

lemma build_resource_id_map_acc:
  assumes "map source_key resources = map Inr ks"
      and "distinct ks"
      and "map classify_resource resources = map Inr kinds"
  shows "\<exists>g'. build_resource_id_map resources rm g =
           Inr (rm ++ map_of (zip ks (zip (generated_ids (length resources) g) kinds)), g')"
  using assms
proof (induction resources arbitrary: ks kinds rm g)
  case Nil
  then show ?case by simp
next
  case (Cons r rs)
  from Cons.prems(1) obtain k ks' where ks: "ks = k # ks'" "source_key r = Inr k"
    "map source_key rs = map Inr ks'"
    by (cases ks) auto
  from Cons.prems(3) obtain t kinds' where kinds: "kinds = t # kinds'" "classify_resource r = Inr t"
    "map classify_resource rs = map Inr kinds'"
    by (cases kinds) auto
  from ks(2) obtain v where v: "py_get r ''id'' (JStr '''') = Inr v" "py_key v = Inr k"
    by (auto simp: source_key_def and_then_def split: sum.splits)
  obtain fid g1 where gen: "generate_id 16 g = (fid, g1)" by (cases "generate_id 16 g")
  from Cons.prems(2) ks(1) have d: "distinct ks'" "k \<notin> set ks'" by simp_all
  from Cons.IH [OF ks(3) d(1) kinds(3), of "rm(k \<mapsto> (fid, t))" g1]
  obtain g' where g': "build_resource_id_map rs (rm(k \<mapsto> (fid, t))) g1 =
      Inr (rm(k \<mapsto> (fid, t)) ++ map_of (zip ks' (zip (generated_ids (length rs) g1) kinds')), g')"
    by blast
  have "k \<notin> dom (map_of (zip ks' (zip (generated_ids (length rs) g1) kinds')))"
    using d(2) by (auto dest!: map_of_SomeD set_zip_leftD)
  then have "rm(k \<mapsto> (fid, t)) ++ map_of (zip ks' (zip (generated_ids (length rs) g1) kinds'))
      = rm ++ map_of (zip (k # ks') (zip (generated_ids (Suc (length rs)) g) (t # kinds')))"
    by (simp add: gen map_add_upd_left)
  with g' show ?case
    by (simp add: v kinds(2) gen and_then_def ks(1) kinds(1) del: generated_ids.simps generate_id.simps)
qed

text \<open>
  C7, as the code has it: when the source identifiers of the resources can be keys and
  are pairwise distinct, and the classifier returns for every resource, the pass
  returns a table with exactly one entry for every resource, keyed by its source
  identifier; the entry of the \<open>i\<close>-th resource pairs the \<open>i\<close>-th identifier generated
  with the classifier's verdict for that resource. The target identifiers are pairwise
  distinct when the identifiers generated are: the code draws them at random and does
  not compare them.
\<close>

theorem resource_id_map_entries:
  assumes "map source_key resources = map Inr ks"
      and "distinct ks"
      and "map classify_resource resources = map Inr kinds"
  shows "\<exists>tbl g'. build_resource_id_map resources Map.empty g = Inr (tbl, g')
           \<and> dom tbl = set ks \<and> card (dom tbl) = length resources
           \<and> (\<forall>i < length resources.
                 tbl (ks ! i) = Some (generated_ids (length resources) g ! i, kinds ! i))
           \<and> (distinct (generated_ids (length resources) g) \<longrightarrow>
                 (\<forall>i < length resources. \<forall>j < length resources. i \<noteq> j \<longrightarrow>
                    fst (the (tbl (ks ! i))) \<noteq> fst (the (tbl (ks ! j)))))"
proof -
  let ?ids = "generated_ids (length resources) g"
  let ?tbl = "map_of (zip ks (zip ?ids kinds))"
  have len: "length ks = length resources" "length kinds = length resources"
    using assms(1,3) by (metis length_map)+
  have lids: "length ?ids = length resources"
    by (rule length_generated_ids)
  from build_resource_id_map_acc [OF assms, of Map.empty g]
  obtain g' where b: "build_resource_id_map resources Map.empty g = Inr (?tbl, g')"
    by auto
  have lz: "length (zip ?ids kinds) = length ks" using len lids by simp
  have dom: "dom ?tbl = set ks"
    using lz by (simp add: dom_map_of_zip)
  have card: "card (dom ?tbl) = length resources"
    using dom assms(2) len by (simp add: distinct_card)
  have entry: "?tbl (ks ! i) = Some (?ids ! i, kinds ! i)" if "i < length resources" for i
  proof -
    have "?tbl (ks ! i) = Some (zip ?ids kinds ! i)"
      using that len lz assms(2) by (intro map_of_zip_nth) simp_all
    then show ?thesis using that len lids by simp
  qed
  have inj: "fst (the (?tbl (ks ! i))) \<noteq> fst (the (?tbl (ks ! j)))"
    if "distinct ?ids" "i < length resources" "j < length resources" "i \<noteq> j" for i j
    using that lids by (simp add: entry nth_eq_iff_index_eq)
  show ?thesis
    using b dom card entry inj by blast
qed

theorem resource_id_map_entries_witness:
  "dom (table_of (build_resource_id_map
          [JDict [(''id'', JStr ''a'')],
           JDict [(''id'', JStr ''b''),
                  (''documents'', JList [JDict [(''type'', JStr ''map''),
                     (''map'', JDict [(''mapId'', JStr ''http://h/m.webp'')])]])]]
          Map.empty (\<lambda>n. n)))
     = {KStr ''a'', KStr ''b''}
   \<and> table_of (build_resource_id_map
          [JDict [(''id'', JStr ''a'')],
           JDict [(''id'', JStr ''b''),
                  (''documents'', JList [JDict [(''type'', JStr ''map''),
                     (''map'', JDict [(''mapId'', JStr ''http://h/m.webp'')])]])]]
          Map.empty (\<lambda>n. n)) (KStr ''a'')
     = Some (''abcdefghijklmnop'', ''JournalEntry'')
   \<and> table_of (build_resource_id_map
          [JDict [(''id'', JStr ''a'')],
           JDict [(''id'', JStr ''b''),
                  (''documents'', JList [JDict [(''type'', JStr ''map''),
                     (''map'', JDict [(''mapId'', JStr ''http://h/m.webp'')])]])]]
          Map.empty (\<lambda>n. n)) (KStr ''b'')
     = Some (''qrstuvwxyzABCDEF'', ''Scene'')"
proof -
  let ?r1 = "JDict [(''id'', JStr ''a'')]"
  let ?r2 = "JDict [(''id'', JStr ''b''),
                  (''documents'', JList [JDict [(''type'', JStr ''map''),
                     (''map'', JDict [(''mapId'', JStr ''http://h/m.webp'')])]])]"
  have ids: "generated_ids (length [?r1, ?r2]) (\<lambda>n. n) = [''abcdefghijklmnop'', ''qrstuvwxyzABCDEF'']"
    by code_simp
  have keys: "map source_key [?r1, ?r2] = map Inr [KStr ''a'', KStr ''b'']"
    by (simp add: source_key_def py_get_def dict_get_def and_then_def py_key_def)
  have kinds: "map classify_resource [?r1, ?r2] = map Inr [''JournalEntry'', ''Scene'']"
    by (simp add: classify_resource_def py_get_def dict_get_def and_then_def py_iter_def
        url_shaped_def py_truthy_def startswith_def)
  have dist: "distinct [KStr ''a'', KStr ''b'']" by simp
  from resource_id_map_entries [OF keys dist kinds, of "\<lambda>n. n"]
  obtain tbl g' where b: "build_resource_id_map [?r1, ?r2] Map.empty (\<lambda>n. n) = Inr (tbl, g')"
    and dom: "dom tbl = set [KStr ''a'', KStr ''b'']"
    and entry: "\<forall>i < length [?r1, ?r2].
        tbl ([KStr ''a'', KStr ''b''] ! i)
          = Some (generated_ids (length [?r1, ?r2]) (\<lambda>n. n) ! i, [''JournalEntry'', ''Scene''] ! i)"
    by blast
  from entry have "tbl ([KStr ''a'', KStr ''b''] ! 0)
      = Some (generated_ids (length [?r1, ?r2]) (\<lambda>n. n) ! 0, [''JournalEntry'', ''Scene''] ! 0)"
    by (intro entry [rule_format]) simp
  then have e0: "tbl (KStr ''a'') = Some (''abcdefghijklmnop'', ''JournalEntry'')"
    by (simp only: ids) simp
  from entry have "tbl ([KStr ''a'', KStr ''b''] ! 1)
      = Some (generated_ids (length [?r1, ?r2]) (\<lambda>n. n) ! 1, [''JournalEntry'', ''Scene''] ! 1)"
    by (intro entry [rule_format]) simp
  then have e1: "tbl (KStr ''b'') = Some (''qrstuvwxyzABCDEF'', ''Scene'')"
    by (simp only: ids) simp
  have t: "table_of (build_resource_id_map [?r1, ?r2] Map.empty (\<lambda>n. n)) = tbl"
    by (simp only: b table_of_def) simp
  show ?thesis
    using dom e0 e1 by (simp only: t) auto
qed

text \<open>
  The claim as the specification states it fails for a run in which \<open>random.choice\<close>
  returns the same character every time: two resources with distinct source
  identifiers get the same target identifier.
\<close>

theorem resource_id_map_counterexample:
  "table_of (build_resource_id_map [JDict [(''id'', JStr ''a'')], JDict [(''id'', JStr ''b'')]]
              Map.empty (\<lambda>n. 0)) (KStr ''a'')
     = Some (''aaaaaaaaaaaaaaaa'', ''JournalEntry'')
   \<and> table_of (build_resource_id_map [JDict [(''id'', JStr ''a'')], JDict [(''id'', JStr ''b'')]]
              Map.empty (\<lambda>n. 0)) (KStr ''b'')
     = Some (''aaaaaaaaaaaaaaaa'', ''JournalEntry'')"
  by code_simp

section \<open>Properties of the document builders\<close>

text \<open>Documents that are not pages add no page.\<close>

lemma journal_pages_no_page:
  assumes "list_all (\<lambda>d. is_dict d \<and> \<not> has_type ''page'' d) docs"
  shows "journal_pages im rm docs pages g = Inr (pages, g)"
  using assms
proof (induction docs)
  case Nil
  show ?case by simp
next
  case (Cons d docs)
  then obtain kvs where d: "d = JDict kvs" "\<not> has_type ''page'' d"
    by (cases d) (auto simp: is_dict_def)
  then have "dict_get kvs ''type'' JNull \<noteq> JStr ''page''"
    by (auto simp: has_type_def dict_get_def split: option.splits)
  with Cons d show ?case
    by (simp add: py_get_dict and_then_simps)
qed

text \<open>
  C8, as the code has it: for a Resource whose documents are dictionaries none of which
  is of type \<open>page\<close> (and whose banner, when present, is a dictionary),
  \<open>create_journal_entry\<close> returns a record with exactly one page. The body of that page
  is the placeholder text \<open><p>No content</p>\<close>, with the banner's image tag before it
  when the URL of the banner is a key of the Asset Reference Table.
\<close>

theorem journal_entry_placeholder:
  assumes "py_iter (dict_get kvs ''documents'' (JList [])) = Inr docs"
      and "list_all (\<lambda>d. is_dict d \<and> \<not> has_type ''page'' d) docs"
      and "dict_get kvs ''banner'' (JDict []) = JDict banner"
      and "resolve_image im (dict_get banner ''url'' (JStr '''')) = Inr found"
  shows "\<exists>entry g'. create_journal_entry (JDict kvs) im rm g = Inr (entry, g')
           \<and> map page_content (entry_pages entry) =
               [JStr ((case found of
                         None \<Rightarrow> []
                       | Some local_path \<Rightarrow>
                           banner_tag local_path (dict_get kvs ''name'' (JStr ''Untitled'')))
                      @ placeholder_content)]"
proof -
  obtain rid g1 where g1: "generate_id 16 g = (rid, g1)" by (cases "generate_id 16 g")
  obtain pid g2 where g2: "generate_id 16 g1 = (pid, g2)" by (cases "generate_id 16 g1")
  have jp: "journal_pages im rm docs [] g1 = Inr ([], g1)"
    by (rule journal_pages_no_page) (rule assms(2))
  show ?thesis
    by (cases found)
       (simp_all add: create_journal_entry_def g1 g2 jp assms(1,3,4) py_get_dict and_then_simps
          default_page_def prepend_banner_def del: generate_id.simps)
qed

theorem journal_entry_placeholder_witness:
  "map page_content (pages_of (create_journal_entry
      (JDict [(''id'', JStr ''a''), (''documents'', JList [JDict [(''type'', JStr ''map'')]])])
      Map.empty None (\<lambda>n. n)))
     = [JStr ''<p>No content</p>'']"
proof -
  let ?kvs = "[(''id'', JStr ''a''), (''documents'', JList [JDict [(''type'', JStr ''map'')]])]"
  have 1: "py_iter (dict_get ?kvs ''documents'' (JList [])) = Inr [JDict [(''type'', JStr ''map'')]]"
    by (simp add: dict_get_def py_iter_def)
  have 2: "list_all (\<lambda>d. is_dict d \<and> \<not> has_type ''page'' d) [JDict [(''type'', JStr ''map'')]]"
    by (simp add: is_dict_def has_type_def)
  have 3: "dict_get ?kvs ''banner'' (JDict []) = JDict []"
    by (simp add: dict_get_def)
  have 4: "resolve_image Map.empty (dict_get [] ''url'' (JStr '''')) = Inr None"
    by (simp add: resolve_image_def dict_get_def py_truthy_def)
  from journal_entry_placeholder [OF 1 2 3 4, of None "\<lambda>n. n"]
  show ?thesis
    by (auto simp: pages_of_def placeholder_content_def)
qed

text \<open>
  The claim as the specification states it fails for a resource without documents whose
  banner resolves: the body of the one page is the image tag followed by the placeholder
  text.
\<close>

theorem journal_entry_placeholder_counterexample:
  "map page_content (pages_of (create_journal_entry
      (JDict [(''banner'', JDict [(''url'', JStr ''u'')])]) [''u'' \<mapsto> ''p''] None (\<lambda>n. 0)))
     = [JStr ''<img src=\"p\" alt=\"Untitled\" /><p>No content</p>'']
   \<and> map page_content (pages_of (create_journal_entry
      (JDict [(''banner'', JDict [(''url'', JStr ''u'')])]) [''u'' \<mapsto> ''p''] None (\<lambda>n. 0)))
     \<noteq> [JStr placeholder_content]"
  by code_simp

text \<open>
  C4: the Actor builder and the Item builder do not render a mention as a
  cross-reference. For a resource whose one page holds a mention of \<open>r1\<close>, the biography
  and the description are the plain display text \<open>Bob\<close>, whatever the Identifier
  Resolution Table holds: neither builder takes the table, and both call
  \<open>convert_prosemirror_to_html\<close> without it. \<open>create_journal_entry\<close>, which passes the
  table on, renders the same page to the token.
\<close>

theorem actor_item_mention_plain_text:
  "biography_of (create_actor_entry
      (JDict [(''id'', JStr ''a1''),
              (''documents'', JList [JDict [(''type'', JStr ''page''),
                 (''content'', JDict [(''type'', JStr ''doc''),
                    (''content'', JList [JDict [(''type'', JStr ''mention''),
                       (''attrs'', JDict [(''id'', JStr ''r1''), (''text'', JStr ''Bob'')])]])])]])])
      Map.empty (\<lambda>n. 0))
     = Some ''Bob''
   \<and> description_of (create_item_entry
      (JDict [(''id'', JStr ''a1''),
              (''documents'', JList [JDict [(''type'', JStr ''page''),
                 (''content'', JDict [(''type'', JStr ''doc''),
                    (''content'', JList [JDict [(''type'', JStr ''mention''),
                       (''attrs'', JDict [(''id'', JStr ''r1''), (''text'', JStr ''Bob'')])]])])]])])
      Map.empty (\<lambda>n. 0))
     = Some ''Bob''
   \<and> map page_content (pages_of (create_journal_entry
      (JDict [(''id'', JStr ''a1''),
              (''documents'', JList [JDict [(''type'', JStr ''page''),
                 (''content'', JDict [(''type'', JStr ''doc''),
                    (''content'', JList [JDict [(''type'', JStr ''mention''),
                       (''attrs'', JDict [(''id'', JStr ''r1''), (''text'', JStr ''Bob'')])]])])]])])
      Map.empty (Some [KStr ''r1'' \<mapsto> (''Ab12'', ''JournalEntry'')]) (\<lambda>n. 0)))
     = [JStr ''@UUID[JournalEntry.Ab12]{Bob}'']"
  by code_simp

section \<open>Malformed rich-text trees\<close>

text \<open>
  C6: \<open>convert_prosemirror_to_html\<close> is not total on rich-text trees. A mark that is a
  string instead of a dictionary raises \<open>AttributeError\<close> (\<open>mark.get\<close>), as does a
  heading whose \<open>attrs\<close> is a list (\<open>attrs.get\<close>); a text node whose \<open>text\<close> is \<open>null\<close>
  makes the function return \<open>None\<close>.
\<close>

theorem render_raises_on_malformed_mark:
  "convert_prosemirror_to_html
     (JDict [(''type'', JStr ''text''), (''text'', JStr ''x''), (''marks'', JList [JStr ''strong''])])
     Map.empty None
     = Inl AttributeError
   \<and> convert_prosemirror_to_html
     (JDict [(''type'', JStr ''heading''), (''attrs'', JList [])]) Map.empty None
     = Inl AttributeError
   \<and> convert_prosemirror_to_html
     (JDict [(''type'', JStr ''text''), (''text'', JNull)]) Map.empty None
     = Inr JNull"
  by code_simp

end
